theory Spec2Isabelle
  imports Main "HOL-Library.Sublist"
begin

section \<open>Python string and dictionary primitives used by the sources\<close>

text \<open>
  \<^verbatim>\<open>s.rstrip(chars)\<close> removes from the right end of \<open>s\<close> every character that
  occurs in \<open>chars\<close>, until one does not.
\<close>

definition rstrip :: "string \<Rightarrow> string \<Rightarrow> string" where
  "rstrip s chars = rev (dropWhile (\<lambda>c. c \<in> set chars) (rev s))"

text \<open>\<^verbatim>\<open>s.startswith(p)\<close>: the first \<open>len(p)\<close> characters of \<open>s\<close> are \<open>p\<close>.\<close>

definition startswith :: "string \<Rightarrow> string \<Rightarrow> bool" where
  "startswith s p = (take (length p) s = p)"

text \<open>
  A dictionary literal is kept as an association list, in the order it is written;
  \<^verbatim>\<open>d.values()\<close> walks the values in that order.
\<close>

definition dict_values :: "('k \<times> 'v) list \<Rightarrow> 'v list" where
  "dict_values d = map snd d"

section \<open>firmware\_finder.py: class FirmwareDatabase\<close>

definition ROOTABLE_FIRMWARE :: "(string \<times> string list) list" where
  "ROOTABLE_FIRMWARE =
     [(''webOS 4.x'', [''4.x.x'', ''03.21.30'', ''03.20.14'', ''03.21.40'']),
      (''webOS 5.x'', [''05.00.00'', ''05.10.00'', ''05.20.00'']),
      (''webOS 6.x'', [''06.00.00'', ''06.10.00''])]"

definition PATCHED_FIRMWARE :: "string list" where
  "PATCHED_FIRMWARE = [''03.30.10'', ''03.30.14'', ''03.40.xx'']"

text \<open>
  The loop of \<^verbatim>\<open>is_rootable\<close> over the value lists of the table: the first list
  that holds the version ends it with True, running out of lists gives False.
\<close>

fun rootable_loop :: "string list list \<Rightarrow> string \<Rightarrow> bool" where
  "rootable_loop [] version = False"
| "rootable_loop (versions # rest) version =
     (if version \<in> set versions then True else rootable_loop rest version)"

definition is_rootable :: "string \<Rightarrow> bool" where
  "is_rootable version = rootable_loop (dict_values ROOTABLE_FIRMWARE) version"

text \<open>
  The loop of \<^verbatim>\<open>is_patched\<close>: every entry, wildcard or not, has its trailing
  \<open>x\<close> characters stripped and is then compared as a prefix of the version.
\<close>

fun patched_loop :: "string list \<Rightarrow> string \<Rightarrow> bool" where
  "patched_loop [] version = False"
| "patched_loop (patched # rest) version =
     (if startswith version (rstrip patched ''x'') then True
      else patched_loop rest version)"

definition is_patched :: "string \<Rightarrow> bool" where
  "is_patched version = patched_loop PATCHED_FIRMWARE version"

text \<open>
  \<^verbatim>\<open>recommend_firmware\<close> is annotated \<^verbatim>\<open>Optional[str]\<close>, so the model returns
  an option.
\<close>

definition recommend_firmware :: "string \<Rightarrow> string option" where
  "recommend_firmware current_version =
     (if is_rootable current_version then Some current_version
      else Some ''03.21.30'')"

text \<open>
  The classification itself is the branch structure of \<^verbatim>\<open>check_firmware\<close> in
  gui.py: rootable is tested first, then patched (which reports the recommendation),
  and everything else is unknown.
\<close>

datatype verdict = Rootable | Patched "string option" | Unknown

definition check_firmware :: "string \<Rightarrow> verdict" where
  "check_firmware version =
     (if is_rootable version then Rootable
      else if is_patched version then Patched (recommend_firmware version)
      else Unknown)"

text \<open>
  The two tables as the specification reads them. A version is in the rootable table
  when one of the lists holds it. An entry of the patched table that ends in \<open>x\<close> is a
  wildcard and stands for every version beginning with what precedes the \<open>x\<close>s; any
  other entry stands for itself only.
\<close>

definition in_rootable_table :: "string \<Rightarrow> bool" where
  "in_rootable_table v = (\<exists>vs \<in> set (dict_values ROOTABLE_FIRMWARE). v \<in> set vs)"

definition is_wildcard :: "string \<Rightarrow> bool" where
  "is_wildcard e = (e \<noteq> [] \<and> last e = CHR ''x'')"

definition entry_covers :: "string \<Rightarrow> string \<Rightarrow> bool" where
  "entry_covers e v = (if is_wildcard e then prefix (rstrip e ''x'') v else v = e)"

definition in_patched_table :: "string \<Rightarrow> bool" where
  "in_patched_table v = (\<exists>e \<in> set PATCHED_FIRMWARE. entry_covers e v)"

text \<open>The prefixes the code really compares against.\<close>

definition patched_prefixes :: "string list" where
  "patched_prefixes = map (\<lambda>e. rstrip e ''x'') PATCHED_FIRMWARE"

section \<open>firmware\_finder.py: FirmwareFinder.\_check\_cache\<close>

text \<open>
  A \<open>char\<close> stands for one code point below 256. Under \<^verbatim>\<open>re.IGNORECASE\<close> two such
  characters match when their lower-case forms agree: the ASCII capitals and the
  Latin-1 capitals (192 to 222, without the multiplication sign 215) lie 32 below
  their lower-case forms.
\<close>

definition lower :: "char \<Rightarrow> char" where
  "lower c =
     (let n = (of_char c :: nat)
      in if (65 \<le> n \<and> n \<le> 90) \<or> (192 \<le> n \<and> n \<le> 222 \<and> n \<noteq> 215)
         then char_of (n + 32) else c)"

definition str_lower :: "string \<Rightarrow> string" where
  "str_lower s = map lower s"

definition endswith :: "string \<Rightarrow> string \<Rightarrow> bool" where
  "endswith s p = (length p \<le> length s \<and> drop (length s - length p) s = p)"

text \<open>\<^verbatim>\<open>s.replace(".", r"\.")\<close>: every dot becomes backslash, dot.\<close>

definition backslash :: char where
  "backslash = CHR 0x5C"

definition newline :: char where
  "newline = CHR 0x0A"

definition escape_dots :: "string \<Rightarrow> string" where
  "escape_dots s = concat (map (\<lambda>c. if c = CHR ''.'' then [backslash, CHR ''.''] else [c]) s)"

text \<open>The text handed to \<^verbatim>\<open>re.compile\<close>: the f-string of the source.\<close>

definition pattern_text :: "string \<Rightarrow> string" where
  "pattern_text target_version =
     ''.*'' @ escape_dots target_version @ [backslash] @ ''.epk''"

text \<open>
  The fragment of regular-expression syntax the pattern needs: \<open>.*\<close> (any run of
  characters other than newline), an escaped dot, and characters that stand for
  themselves. \<open>re_compile\<close> parses a pattern text of that fragment and answers
  \<open>None\<close> for a text that uses any other special character, whose meaning is not
  modelled here.
\<close>

datatype rx = Any_star | Lit char

definition specials :: "char list" where
  "specials = ''.^$*+?{}[]|()'' @ [backslash]"

fun re_compile :: "string \<Rightarrow> rx list option" where
  "re_compile [] = Some []"
| "re_compile [c] = (if c \<in> set specials then None else Some [Lit c])"
| "re_compile (c # d # t) =
     (if c = CHR ''.'' \<and> d = CHR ''*'' then map_option (Cons Any_star) (re_compile t)
      else if c = backslash \<and> d = CHR ''.'' then map_option (Cons (Lit (CHR ''.''))) (re_compile t)
      else if c \<in> set specials then None
      else map_option (Cons (Lit c)) (re_compile (d # t)))"

text \<open>
  \<^verbatim>\<open>pattern.match(name)\<close> with \<^verbatim>\<open>re.IGNORECASE\<close>: the pattern has to match from
  the first character of the name, and the name may go on after the match.
\<close>

fun rx_match :: "rx list \<Rightarrow> string \<Rightarrow> bool" where
  "rx_match [] s = True"
| "rx_match (Lit c # r) [] = False"
| "rx_match (Lit c # r) (d # s) = (lower c = lower d \<and> rx_match r s)"
| "rx_match (Any_star # r) [] = rx_match r []"
| "rx_match (Any_star # r) (d # s) =
     (rx_match r (d # s) \<or> (d \<noteq> newline \<and> rx_match (Any_star # r) s))"

text \<open>
  \<^verbatim>\<open>firmware_dir.glob("*.epk")\<close> over the names the directory lists, in the order
  it lists them. On Windows (\<open>nt\<close>) the glob compares names case-insensitively and
  paths are joined with a backslash.
\<close>

definition glob_epk :: "bool \<Rightarrow> string list \<Rightarrow> string list" where
  "glob_epk nt names =
     filter (\<lambda>n. endswith (if nt then str_lower n else n) ''.epk'') names"

definition path_str :: "bool \<Rightarrow> string \<Rightarrow> string \<Rightarrow> string" where
  "path_str nt firmware_dir n = firmware_dir @ [if nt then backslash else CHR ''/''] @ n"

fun cache_loop :: "bool \<Rightarrow> string \<Rightarrow> rx list \<Rightarrow> string list \<Rightarrow> string option" where
  "cache_loop nt firmware_dir pattern [] = None"
| "cache_loop nt firmware_dir pattern (file # rest) =
     (if rx_match pattern file then Some (path_str nt firmware_dir file)
      else cache_loop nt firmware_dir pattern rest)"

text \<open>
  \<open>check_cache\<close>: the outer option is \<open>None\<close> only when the pattern text leaves the
  modelled fragment; the inner option is the \<^verbatim>\<open>Optional[str]\<close> the method returns.
\<close>

definition check_cache :: "bool \<Rightarrow> string \<Rightarrow> string list \<Rightarrow> string \<Rightarrow> string option option" where
  "check_cache nt firmware_dir names target_version =
     (case re_compile (pattern_text target_version) of
        None \<Rightarrow> None
      | Some pattern \<Rightarrow> Some (cache_loop nt firmware_dir pattern (glob_epk nt names)))"

text \<open>A version whose characters all stand for themselves once its dots are escaped.\<close>

definition plain_version :: "string \<Rightarrow> bool" where
  "plain_version v = (\<forall>c \<in> set v. c = CHR ''.'' \<or> c \<notin> set specials)"

text \<open>
  The two matching criteria. \<open>contains_ci\<close> is the specification's: the name holds
  the version somewhere, letter case aside. \<open>holds_version_epk\<close> is the pattern's:
  the name holds the version directly followed by \<open>.epk\<close>, letter case aside, with no
  newline before it.
\<close>

definition contains_ci :: "string \<Rightarrow> string \<Rightarrow> bool" where
  "contains_ci v n = (\<exists>pre post. str_lower n = pre @ str_lower v @ post)"

definition holds_version_epk :: "string \<Rightarrow> string \<Rightarrow> bool" where
  "holds_version_epk v n =
     (\<exists>pre mid post. n = pre @ mid @ post \<and> newline \<notin> set pre \<and>
        str_lower mid = str_lower (v @ ''.epk''))"

section \<open>Exceptions and external commands\<close>

text \<open>
  The exceptions the modelled code can meet. A raised exception is the \<open>Inl\<close> side of
  a result; an \<^verbatim>\<open>except\<close> clause is a test on its value.
\<close>

datatype py_exception =
    FileNotFoundError | FileExistsError | NotADirectoryError | IsADirectoryError
  | SameFileError | PermissionError | OSError
  | TimeoutExpired | CalledProcessError | Gaierror | OverflowError

text \<open>
  \<^verbatim>\<open>subprocess.run\<close> hands an argument vector (and a timeout, if any) to the
  operating system, which either completes the process, with exit status, standard
  output and standard error, or raises. With \<^verbatim>\<open>check=True\<close> a non-zero exit
  status is raised as \<^verbatim>\<open>CalledProcessError\<close>.
\<close>

type_synonym argv = "string list"

datatype run_outcome = Completed int string string | Run_raises py_exception

type_synonym process_env = "argv \<Rightarrow> nat option \<Rightarrow> run_outcome"

definition subprocess_run ::
  "process_env \<Rightarrow> argv \<Rightarrow> nat option \<Rightarrow> bool \<Rightarrow> py_exception + (int \<times> string \<times> string)" where
  "subprocess_run env args timeout check =
     (case env args timeout of
        Run_raises e \<Rightarrow> Inl e
      | Completed returncode out err \<Rightarrow>
          if check \<and> returncode \<noteq> 0 then Inl CalledProcessError
          else Inr (returncode, out, err))"

section \<open>usb\_prep.py: the file system\<close>

text \<open>
  A path is the list of its components from the root, as the operating system
  resolves it, so that two paths name the same file exactly when they are equal.
  \<^verbatim>\<open>os.path.join(p, c)\<close> appends a component, \<^verbatim>\<open>Path(p).name\<close> and
  \<^verbatim>\<open>os.path.basename(p)\<close> are the last component. A file system maps the paths that
  exist to a directory or to a regular file with its bytes.
\<close>

type_synonym path = "string list"

datatype node = Dir | File string

type_synonym filesystem = "path \<rightharpoonup> node"

definition path_exists :: "filesystem \<Rightarrow> path \<Rightarrow> bool" where
  "path_exists fs p = (fs p \<noteq> None)"

definition isdir :: "filesystem \<Rightarrow> path \<Rightarrow> bool" where
  "isdir fs p = (fs p = Some Dir)"

definition join :: "path \<Rightarrow> string \<Rightarrow> path" where
  "join p c = (if c = [] then p else p @ [c])"

definition path_name :: "path \<Rightarrow> string" where
  "path_name p = (if p = [] then [] else last p)"

text \<open>
  What the operating system may refuse although the paths are in order: creating a
  directory (no permission), opening the destination of a copy (no permission), or
  going on writing after some bytes (disk full, or the metadata cannot be set).
\<close>

datatype io_fault = Mkdir_fails | Copy_fails_before_write | Copy_fails_after nat

definition mkdir :: "io_fault option \<Rightarrow> filesystem \<Rightarrow> path \<Rightarrow> py_exception option \<times> filesystem" where
  "mkdir fault fs p =
     (if fs p \<noteq> None then (Some FileExistsError, fs)
      else if p = [] then (Some FileNotFoundError, fs)
      else case fs (butlast p) of
             None \<Rightarrow> (Some FileNotFoundError, fs)
           | Some (File _) \<Rightarrow> (Some NotADirectoryError, fs)
           | Some Dir \<Rightarrow>
               if fault = Some Mkdir_fails then (Some PermissionError, fs)
               else (None, fs(p \<mapsto> Dir)))"

text \<open>
  \<^verbatim>\<open>os.makedirs(name, exist_ok=True)\<close>: a missing parent is made first (a
  \<^verbatim>\<open>FileExistsError\<close> from that is passed over), then the directory itself; an
  error of the last \<^verbatim>\<open>mkdir\<close> is dropped when the path is a directory.
\<close>

function makedirs :: "io_fault option \<Rightarrow> filesystem \<Rightarrow> path \<Rightarrow> py_exception option \<times> filesystem" where
  "makedirs fault fs p =
     (let (e0, fs0) =
            (if p \<noteq> [] \<and> fs (butlast p) = None then makedirs fault fs (butlast p)
             else (None, fs))
      in if e0 \<noteq> None \<and> e0 \<noteq> Some FileExistsError then (e0, fs0)
         else case mkdir fault fs0 p of
                (None, fs1) \<Rightarrow> (None, fs1)
              | (Some e, fs1) \<Rightarrow> if isdir fs1 p then (None, fs1) else (Some e, fs1))"
  by pat_completeness auto
termination
  by (relation "measure (\<lambda>(fault, fs, p). length p)") auto

text \<open>
  \<^verbatim>\<open>shutil.copyfile\<close>: the same file as source and destination is refused; the
  source is opened for reading, the destination for writing (created or truncated),
  and the bytes are copied.
\<close>

definition copyfile ::
  "io_fault option \<Rightarrow> filesystem \<Rightarrow> path \<Rightarrow> path \<Rightarrow> py_exception option \<times> filesystem" where
  "copyfile fault fs src dst =
     (if path_exists fs src \<and> path_exists fs dst \<and> src = dst then (Some SameFileError, fs)
      else case fs src of
             None \<Rightarrow> (Some FileNotFoundError, fs)
           | Some Dir \<Rightarrow> (Some IsADirectoryError, fs)
           | Some (File content) \<Rightarrow>
               if isdir fs dst then (Some IsADirectoryError, fs)
               else if dst = [] then (Some FileNotFoundError, fs)
               else (case fs (butlast dst) of
                       None \<Rightarrow> (Some FileNotFoundError, fs)
                     | Some (File _) \<Rightarrow> (Some NotADirectoryError, fs)
                     | Some Dir \<Rightarrow>
                         (case fault of
                            Some Copy_fails_before_write \<Rightarrow> (Some PermissionError, fs)
                          | Some (Copy_fails_after n) \<Rightarrow>
                              (Some OSError, fs(dst \<mapsto> File (take n content)))
                          | _ \<Rightarrow> (None, fs(dst \<mapsto> File content)))))"

text \<open>
  \<^verbatim>\<open>shutil.copy2\<close>: a destination that is a directory stands for the file of the
  source's name inside it.
\<close>

definition copy2 ::
  "io_fault option \<Rightarrow> filesystem \<Rightarrow> path \<Rightarrow> path \<Rightarrow> py_exception option \<times> filesystem" where
  "copy2 fault fs src dst =
     copyfile fault fs src (if isdir fs dst then join dst (path_name src) else dst)"

section \<open>usb\_prep.py: class USBPrepper\<close>

record USBPrepper =
  usb_path :: path
  system :: string

text \<open>
  \<open>prepare_firmware\<close> returns the method's result and the file system it leaves.
  Both \<^verbatim>\<open>try\<close> blocks catch every exception and turn it into False.
\<close>

definition prepare_firmware ::
  "io_fault option \<Rightarrow> filesystem \<Rightarrow> USBPrepper \<Rightarrow> path \<Rightarrow> bool \<times> filesystem" where
  "prepare_firmware fault fs self firmware_path =
     (if \<not> path_exists fs firmware_path then (False, fs)
      else if \<not> path_exists fs (usb_path self) then (False, fs)
      else
        let lg_dtv_path = join (usb_path self) ''LG_DTV''
        in case makedirs fault fs lg_dtv_path of
             (Some e, fs1) \<Rightarrow> (False, fs1)
           | (None, fs1) \<Rightarrow>
               (let firmware_name = path_name firmware_path;
                    dest_path = join lg_dtv_path firmware_name
                in case copy2 fault fs1 firmware_path dest_path of
                     (Some e, fs2) \<Rightarrow> (False, fs2)
                   | (None, fs2) \<Rightarrow>
                       if \<not> path_exists fs2 dest_path then (False, fs2)
                       else (True, fs2)))"

text \<open>The fixed destination \<^verbatim>\<open><volume>/LG_DTV/<firmware-filename>\<close>.\<close>

definition staged_path :: "path \<Rightarrow> path \<Rightarrow> path" where
  "staged_path volume firmware_path = join (join volume ''LG_DTV'') (path_name firmware_path)"

text \<open>
  The formatting helpers run external commands. Each returns its result, or the
  exception it lets through, together with the argument vectors it has run, in order.
  Their \<^verbatim>\<open>except\<close> clause catches \<^verbatim>\<open>CalledProcessError\<close> only.
\<close>

definition format_handler :: "py_exception \<Rightarrow> py_exception + bool" where
  "format_handler e = (if e = CalledProcessError then Inr False else Inl e)"

definition format_windows :: "process_env \<Rightarrow> string \<Rightarrow> string \<Rightarrow> (py_exception + bool) \<times> argv list" where
  "format_windows env drive0 fs_type =
     (let drive = rstrip drive0 [CHR 0x5C];
          cmd = [''format'', drive, ''/FS:'' @ fs_type, ''/Q'', ''/Y'']
      in case subprocess_run env cmd None True of
           Inl e \<Rightarrow> (format_handler e, [cmd])
         | Inr _ \<Rightarrow> (Inr True, [cmd]))"

definition format_linux :: "process_env \<Rightarrow> string \<Rightarrow> string \<Rightarrow> (py_exception + bool) \<times> argv list" where
  "format_linux env device fs_type =
     (let umount = [''umount'', device]
      in case subprocess_run env umount None False of
           Inl e \<Rightarrow> (format_handler e, [umount])
         | Inr _ \<Rightarrow>
             (let fstype = (if fs_type = ''FAT32'' then ''vfat'' else ''ntfs'');
                  cmd = [''mkfs.'' @ fstype, device]
              in case subprocess_run env cmd None True of
                   Inl e \<Rightarrow> (format_handler e, [umount, cmd])
                 | Inr _ \<Rightarrow> (Inr True, [umount, cmd])))"

definition format_macos :: "process_env \<Rightarrow> string \<Rightarrow> string \<Rightarrow> (py_exception + bool) \<times> argv list" where
  "format_macos env device fs_type =
     (let cmd = [''diskutil'', ''eraseDisk'', fs_type, ''LGTVDOWN'', device]
      in case subprocess_run env cmd None True of
           Inl e \<Rightarrow> (format_handler e, [cmd])
         | Inr _ \<Rightarrow> (Inr True, [cmd]))"

text \<open>
  \<open>format_drive\<close>: \<open>confirm\<close> is the line \<^verbatim>\<open>input\<close> returns and \<open>platform_system\<close>
  is what \<^verbatim>\<open>platform.system()\<close> answers.
\<close>

definition format_drive ::
  "process_env \<Rightarrow> string \<Rightarrow> string \<Rightarrow> string \<Rightarrow> string \<Rightarrow> (py_exception + bool) \<times> argv list" where
  "format_drive env platform_system confirm usb_path' fs_type =
     (if confirm \<noteq> ''YES'' then (Inr False, [])
      else if platform_system = ''Windows'' then format_windows env usb_path' fs_type
      else if platform_system = ''Linux'' then format_linux env usb_path' fs_type
      else if platform_system = ''Darwin'' then format_macos env usb_path' fs_type
      else (Inr False, []))"

section \<open>ssh\_helper.py: class SSHHelper\<close>

record SSHHelper =
  tv_ip :: string
  port :: int
  user :: string

text \<open>The constructor; the port defaults to 9922.\<close>

definition SSHHelper_init :: "string \<Rightarrow> int \<Rightarrow> SSHHelper" where
  "SSHHelper_init ip p = \<lparr>tv_ip = ip, port = p, user = ''prisoner''\<rparr>"

definition default_port :: int where
  "default_port = 9922"

text \<open>
  The network as \<open>test_connection\<close> sees it: a connection attempt on a fresh TCP
  socket, under the timeout (in seconds) set on the socket, to a host and a port
  either returns the error number of \<^verbatim>\<open>connect_ex\<close> (0 when the connection is
  made) or raises.
\<close>

datatype connect_outcome = Connect_returns int | Connect_raises py_exception

type_synonym network = "nat \<Rightarrow> string \<Rightarrow> int \<Rightarrow> connect_outcome"

definition test_connection :: "network \<Rightarrow> SSHHelper \<Rightarrow> bool" where
  "test_connection net self =
     (case net 5 (tv_ip self) (port self) of
        Connect_returns result \<Rightarrow> (if result = 0 then True else False)
      | Connect_raises e \<Rightarrow> (if e = Gaierror then False else False))"

text \<open>\<^verbatim>\<open>str\<close> of an integer: its decimal digits, with a minus sign when negative.\<close>

fun str_nat :: "nat \<Rightarrow> string" where
  "str_nat n =
     (if n < 10 then [''0123456789'' ! n]
      else str_nat (n div 10) @ [''0123456789'' ! (n mod 10)])"

definition str_int :: "int \<Rightarrow> string" where
  "str_int i = (if i < 0 then ''-'' @ str_nat (nat (- i)) else str_nat (nat i))"

definition ssh_cmd :: "SSHHelper \<Rightarrow> string \<Rightarrow> argv" where
  "ssh_cmd self command =
     [''ssh'',
      ''-p'', str_int (port self),
      ''-o'', ''StrictHostKeyChecking=no'',
      ''-o'', ''UserKnownHostsFile=/dev/null'',
      ''-o'', ''ConnectTimeout=10'',
      user self @ ''@'' @ tv_ip self,
      command]"

text \<open>
  \<open>execute_command\<close> returns the \<^verbatim>\<open>Optional[str]\<close> of the method, or the
  exception that none of its three \<^verbatim>\<open>except\<close> clauses catches, together with the
  argument vectors it has handed to \<^verbatim>\<open>subprocess.run\<close>.
\<close>

definition execute_handler :: "py_exception \<Rightarrow> py_exception + string option" where
  "execute_handler e =
     (if e = TimeoutExpired then Inr None
      else if e = CalledProcessError then Inr None
      else if e = FileNotFoundError then Inr None
      else Inl e)"

definition execute_command ::
  "process_env \<Rightarrow> SSHHelper \<Rightarrow> string \<Rightarrow> bool \<Rightarrow> (py_exception + string option) \<times> argv list" where
  "execute_command env self command capture_output =
     (let cmd = ssh_cmd self command
      in if capture_output then
           (case subprocess_run env cmd (Some 30) False of
              Inl e \<Rightarrow> (execute_handler e, [cmd])
            | Inr (returncode, out, err) \<Rightarrow>
                if returncode = 0 then (Inr (Some out), [cmd]) else (Inr None, [cmd]))
         else
           (case subprocess_run env cmd (Some 30) True of
              Inl e \<Rightarrow> (execute_handler e, [cmd])
            | Inr _ \<Rightarrow> (Inr (Some ''Command sent''), [cmd])))"

definition dq :: char where
  "dq = CHR 0x22"

definition sq :: char where
  "sq = CHR 0x27"

definition software_update_command :: string where
  "software_update_command =
     ''luna-send-pub -d -n 1 -f '' @
     [dq] @ ''luna://com.webos.applicationManager/launch'' @ [dq] @ '' '' @
     [sq] @ ''{'' @ [dq] @ ''id'' @ [dq] @ '': '' @ [dq] @ ''com.webos.app.softwareupdate'' @ [dq] @ '', '' @
     [dq] @ ''params'' @ [dq] @ '': {'' @ [dq] @ ''mode'' @ [dq] @ '': '' @ [dq] @ ''user'' @ [dq] @ '', '' @
     [dq] @ ''flagUpdate'' @ [dq] @ '': true}}'' @ [sq]"

definition firmware_info_command :: string where
  "firmware_info_command =
     ''luna-send-pub -n 1 '' @
     [dq] @ ''luna://com.webos.service.tvproperty/getSystemInfo'' @ [dq] @ '' '' @
     [sq] @ ''{}'' @ [sq]"

definition send_software_update :: "process_env \<Rightarrow> SSHHelper \<Rightarrow> (py_exception + string option) \<times> argv list" where
  "send_software_update env self = execute_command env self software_update_command False"

text \<open>Python's truth value of an \<^verbatim>\<open>Optional[str]\<close>: None and the empty string are false.\<close>

definition truthy :: "string option \<Rightarrow> bool" where
  "truthy r = (case r of None \<Rightarrow> False | Some s \<Rightarrow> s \<noteq> [])"

definition get_firmware_info :: "process_env \<Rightarrow> SSHHelper \<Rightarrow> (py_exception + string option) \<times> argv list" where
  "get_firmware_info env self =
     (case execute_command env self firmware_info_command True of
        (Inl e, cmds) \<Rightarrow> (Inl e, cmds)
      | (Inr result, cmds) \<Rightarrow> (Inr (if truthy result then result else None), cmds))"

text \<open>
  The failures of the external tool: the ssh process times out, exits with a
  non-zero status, or the ssh client is not installed.
\<close>

fun tool_failure :: "run_outcome \<Rightarrow> bool" where
  "tool_failure (Completed returncode out err) = (returncode \<noteq> 0)"
| "tool_failure (Run_raises e) = (e = TimeoutExpired \<or> e = FileNotFoundError)"

section \<open>Facts about the classifier\<close>

lemma startswith_prefix: "startswith s p = prefix p s"
  by (auto simp: startswith_def prefix_def) (metis append_take_drop_id)

lemma rootable_loop_iff: "rootable_loop vss v = (\<exists>vs \<in> set vss. v \<in> set vs)"
  by (induction vss) auto

lemma patched_loop_iff:
  "patched_loop es v = (\<exists>e \<in> set es. prefix (rstrip e ''x'') v)"
  by (induction es) (auto simp: startswith_prefix)

lemma patched_prefixes_eval: "patched_prefixes = [''03.30.10'', ''03.30.14'', ''03.40.'']"
  by (simp add: patched_prefixes_def PATCHED_FIRMWARE_def rstrip_def)

lemma is_patched_prefixes: "is_patched v = (\<exists>p \<in> set patched_prefixes. prefix p v)"
  by (simp add: is_patched_def patched_loop_iff patched_prefixes_def)

lemma is_rootable_table: "is_rootable v = in_rootable_table v"
  by (simp add: is_rootable_def in_rootable_table_def rootable_loop_iff)

lemma is_rootable_cases:
  "is_rootable v =
     (v \<in> {''4.x.x'', ''03.21.30'', ''03.20.14'', ''03.21.40'', ''05.00.00'',
            ''05.10.00'', ''05.20.00'', ''06.00.00'', ''06.10.00''})"
  by (auto simp: is_rootable_def rootable_loop_iff dict_values_def ROOTABLE_FIRMWARE_def)

lemma rootable_not_patched: "is_rootable v \<Longrightarrow> \<not> is_patched v"
  by (auto simp: is_rootable_cases is_patched_prefixes patched_prefixes_eval)

lemma in_patched_table_cases:
  "in_patched_table v = (v = ''03.30.10'' \<or> v = ''03.30.14'' \<or> prefix ''03.40.'' v)"
  by (simp add: in_patched_table_def PATCHED_FIRMWARE_def entry_covers_def is_wildcard_def rstrip_def)

lemma in_patched_table_is_patched: "in_patched_table v \<Longrightarrow> is_patched v"
  by (auto simp: in_patched_table_cases is_patched_prefixes patched_prefixes_eval)

lemma rootable_entries_no_patched_prefix:
  "\<forall>vs \<in> set (dict_values ROOTABLE_FIRMWARE). \<forall>e \<in> set vs.
     \<forall>p \<in> set patched_prefixes. \<not> startswith e p"
  by (simp add: patched_prefixes_eval dict_values_def ROOTABLE_FIRMWARE_def startswith_prefix)

text \<open>
  Claim C1. \<open>is_rootable\<close> returns True for every version string that occurs in some
  list of \<open>ROOTABLE_FIRMWARE\<close> and False for every version string that occurs in none
  of them; the literal table entry \<open>4.x.x\<close> is rootable.
\<close>

theorem is_rootable_iff_in_table:
  "(in_rootable_table v \<longrightarrow> is_rootable v) \<and>
   (\<not> in_rootable_table v \<longrightarrow> \<not> is_rootable v) \<and>
   is_rootable ''4.x.x''"
  by (simp add: is_rootable_table)
     (simp add: in_rootable_table_def dict_values_def ROOTABLE_FIRMWARE_def)

text \<open>Claim C1 at a version of the table and at one outside it.\<close>

theorem is_rootable_iff_in_table_witness:
  "in_rootable_table ''05.10.00'' \<and> is_rootable ''05.10.00'' \<and>
   \<not> in_rootable_table ''03.30.10'' \<and> \<not> is_rootable ''03.30.10''"
  using is_rootable_iff_in_table [of "''05.10.00''"] is_rootable_iff_in_table [of "''03.30.10''"]
  by (simp add: in_rootable_table_def dict_values_def ROOTABLE_FIRMWARE_def)

text \<open>
  Claim C2 as stated fails: the version \<open>03.30.100\<close> is in neither table (it is in no
  rootable list, it is not one of the two plain patched entries, and it does not begin
  with \<open>03.40.\<close>), yet \<open>is_patched\<close> returns True for it, because the code compares
  the plain entry \<open>03.30.10\<close> as a prefix too. It is not classified unknown.
\<close>

theorem unknown_outside_tables_counterexample:
  "\<not> in_rootable_table ''03.30.100'' \<and> \<not> in_patched_table ''03.30.100'' \<and>
   is_patched ''03.30.100'' \<and> check_firmware ''03.30.100'' \<noteq> Unknown"
  by (simp add: in_rootable_table_def dict_values_def ROOTABLE_FIRMWARE_def
      in_patched_table_cases is_patched_prefixes patched_prefixes_eval check_firmware_def)

text \<open>
  Claim C2, amended. For every version string in the patched table (a wildcard entry
  such as \<open>03.40.xx\<close> standing for every version that begins with \<open>03.40.\<close>),
  \<open>is_patched\<close> returns True and the classification is patched with the
  recommendation \<open>03.21.30\<close>. Every version string that occurs in no rootable list and
  begins with none of the prefixes \<open>03.30.10\<close>, \<open>03.30.14\<close>, \<open>03.40.\<close> is classified
  unknown: \<open>is_rootable\<close> and \<open>is_patched\<close> both return False. Classifying
  \<open>03.30.10\<close> yields patched, and \<open>recommend_firmware\<close> gives \<open>03.21.30\<close> for it.
\<close>

theorem patched_and_unknown:
  "(in_patched_table v \<longrightarrow> is_patched v \<and> check_firmware v = Patched (Some ''03.21.30'')) \<and>
   (\<not> in_rootable_table v \<and> (\<forall>p \<in> set patched_prefixes. \<not> prefix p v) \<longrightarrow>
      \<not> is_rootable v \<and> \<not> is_patched v \<and> check_firmware v = Unknown) \<and>
   is_patched ''03.30.10'' \<and> check_firmware ''03.30.10'' = Patched (Some ''03.21.30'') \<and>
   recommend_firmware ''03.30.10'' = Some ''03.21.30''"
proof -
  have a: "is_patched w \<and> check_firmware w = Patched (Some ''03.21.30'') \<and>
           recommend_firmware w = Some ''03.21.30''" if "in_patched_table w" for w
  proof -
    from that have p: "is_patched w" by (rule in_patched_table_is_patched)
    then have "\<not> is_rootable w" using rootable_not_patched by blast
    with p show ?thesis by (simp add: check_firmware_def recommend_firmware_def)
  qed
  have b: "in_patched_table ''03.30.10''" by (simp add: in_patched_table_cases)
  have c: "\<not> is_rootable u \<and> \<not> is_patched u \<and> check_firmware u = Unknown"
    if "\<not> in_rootable_table u" and "\<forall>p \<in> set patched_prefixes. \<not> prefix p u" for u
    using that by (simp add: is_rootable_table is_patched_prefixes check_firmware_def)
  show ?thesis
    using a [of v] a [OF b] c [of v] by blast
qed

text \<open>The amended claim C2 at a version under the wildcard and at an unknown one.\<close>

theorem patched_and_unknown_witness:
  "in_patched_table ''03.40.07'' \<and> check_firmware ''03.40.07'' = Patched (Some ''03.21.30'') \<and>
   \<not> in_rootable_table ''07.00.00'' \<and> \<not> prefix ''03.30.10'' ''07.00.00'' \<and>
   \<not> prefix ''03.30.14'' ''07.00.00'' \<and> \<not> prefix ''03.40.'' ''07.00.00'' \<and>
   check_firmware ''07.00.00'' = Unknown"
proof -
  have h1: "in_patched_table ''03.40.07''" by (simp add: in_patched_table_cases)
  have h2: "\<not> in_rootable_table ''07.00.00''"
    by (simp add: in_rootable_table_def dict_values_def ROOTABLE_FIRMWARE_def)
  have h3: "\<forall>p \<in> set patched_prefixes. \<not> prefix p ''07.00.00''"
    by (simp add: patched_prefixes_eval)
  have h4: "check_firmware ''03.40.07'' = Patched (Some ''03.21.30'')"
    using h1 patched_and_unknown [of "''03.40.07''"] by blast
  have h5: "check_firmware ''07.00.00'' = Unknown"
    using h2 h3 patched_and_unknown [of "''07.00.00''"] by blast
  show ?thesis
    using h1 h2 h4 h5 by simp
qed

text \<open>
  Claim C9. \<open>recommend_firmware\<close> always returns a string, never None: the version
  itself when \<open>is_rootable\<close> holds of it, and the constant \<open>03.21.30\<close> for every other
  version, patched or unknown to both tables.
\<close>

theorem recommend_firmware_total:
  "(\<exists>r. recommend_firmware v = Some r) \<and>
   (is_rootable v \<longrightarrow> recommend_firmware v = Some v) \<and>
   (\<not> is_rootable v \<longrightarrow> recommend_firmware v = Some ''03.21.30'')"
  by (simp add: recommend_firmware_def)

text \<open>Claim C9 at a rootable version and at a version neither table knows.\<close>

theorem recommend_firmware_total_witness:
  "is_rootable ''05.00.00'' \<and> recommend_firmware ''05.00.00'' = Some ''05.00.00'' \<and>
   \<not> is_rootable ''9.9.9'' \<and> recommend_firmware ''9.9.9'' = Some ''03.21.30''"
proof -
  have h1: "is_rootable ''05.00.00''" by (simp add: is_rootable_cases)
  have h2: "\<not> is_rootable ''9.9.9''" by (simp add: is_rootable_cases)
  show ?thesis
    using h1 h2 recommend_firmware_total [of "''05.00.00''"]
      recommend_firmware_total [of "''9.9.9''"]
    by blast
qed

text \<open>
  Claim C10. No version string is both rootable and patched: the prefixes obtained
  from \<open>PATCHED_FIRMWARE\<close> by stripping trailing \<open>x\<close> characters are \<open>03.30.10\<close>,
  \<open>03.30.14\<close> and \<open>03.40.\<close>, and no entry of \<open>ROOTABLE_FIRMWARE\<close> begins with any of
  them.
\<close>

theorem rootable_patched_exclusive:
  "\<not> (is_rootable v \<and> is_patched v) \<and>
   patched_prefixes = [''03.30.10'', ''03.30.14'', ''03.40.''] \<and>
   (\<forall>vs \<in> set (dict_values ROOTABLE_FIRMWARE). \<forall>e \<in> set vs.
      \<forall>p \<in> set patched_prefixes. \<not> startswith e p)"
  using rootable_not_patched [of v] rootable_entries_no_patched_prefix patched_prefixes_eval
  by blast

text \<open>Claim C10 at a rootable version and at a patched one.\<close>

theorem rootable_patched_exclusive_witness:
  "is_rootable ''03.21.30'' \<and> \<not> is_patched ''03.21.30'' \<and>
   is_patched ''03.40.21'' \<and> \<not> is_rootable ''03.40.21''"
proof -
  have h1: "is_rootable ''03.21.30''" by (simp add: is_rootable_cases)
  have h2: "is_patched ''03.40.21''" by (simp add: is_patched_prefixes patched_prefixes_eval)
  show ?thesis
    using h1 h2 rootable_patched_exclusive [of "''03.21.30''"]
      rootable_patched_exclusive [of "''03.40.21''"]
    by blast
qed

end
